theory Spec2Isabelle
  imports Main "HOL-Library.Word"
begin

unbundle bit_operations_syntax

section \<open>Platform types of \<open>_crcfunext.c\<close>\<close>

text \<open>
  The typedefs of the extension module (\<open>init_crcfunext\<close> aborts unless their sizes are
  1, 2, 4 and 8 bytes). A C \<open>int\<close> has 32 bits on the platforms the header comment
  names; operands narrower than \<open>int\<close> are promoted to it before \<open>^\<close>, \<open><<\<close> and
  \<open>>>\<close>, and an assignment to a narrower unsigned type truncates.
\<close>

type_synonym UINT8 = "8 word"
type_synonym UINT16 = "16 word"
type_synonym UINT32 = "32 word"
type_synonym UINT64 = "64 word"
type_synonym c_int = "32 word"

text \<open>
  The table arrives as the bytes of a Python string and is read through a pointer to
  \<open>UINT16\<close>, \<open>UINT32\<close> or \<open>UINT64\<close>: the value of an entry depends on the byte order
  of the host, which is a parameter of the model.
\<close>

datatype endian = LittleEndian | BigEndian

text \<open>
  \<open>ValueError\<close> is the exception the entry points raise themselves. \<open>OutOfBounds\<close>
  stands for a read outside the table or the data buffer, which C leaves undefined.
\<close>

datatype error = ValueError string | OutOfBounds

section \<open>The byte extraction macros\<close>

definition BYTE0 :: "'a::len word \<Rightarrow> UINT8" where
  "BYTE0 x = ucast x"

definition BYTE1 :: "'a::len word \<Rightarrow> UINT8" where
  "BYTE1 x = ucast (drop_bit 8 x)"

definition BYTE2 :: "'a::len word \<Rightarrow> UINT8" where
  "BYTE2 x = ucast (drop_bit 16 x)"

definition BYTE3 :: "'a::len word \<Rightarrow> UINT8" where
  "BYTE3 x = ucast (drop_bit 24 x)"

definition BYTE7 :: "'a::len word \<Rightarrow> UINT8" where
  "BYTE7 x = ucast (drop_bit 56 x)"

section \<open>Reading the table\<close>

fun le_word :: "UINT8 list \<Rightarrow> 'a::len word" where
  "le_word [] = 0"
| "le_word (b # bs) = ucast b OR push_bit 8 (le_word bs)"

definition host_word :: "endian \<Rightarrow> UINT8 list \<Rightarrow> 'a::len word" where
  "host_word e bs = (case e of LittleEndian \<Rightarrow> le_word bs | BigEndian \<Rightarrow> le_word (rev bs))"

text \<open>
  \<open>table[i]\<close> for a table of entries of \<open>sz\<close> bytes each, with \<open>i\<close> a C \<open>int\<close>: the
  \<open>sz\<close> bytes at offset \<open>sz * i\<close>, when they lie inside the string.
\<close>

definition index_table :: "nat \<Rightarrow> endian \<Rightarrow> UINT8 list \<Rightarrow> c_int \<Rightarrow> 'a::len word option" where
  "index_table sz e table i =
     (if 0 \<le> sint i \<and> sz * nat (sint i) + sz \<le> length table
      then Some (host_word e (take sz (drop (sz * nat (sint i)) table)))
      else None)"

text \<open>A table of \<open>UINT8\<close> is the string itself.\<close>

definition index_UINT8 :: "UINT8 list \<Rightarrow> c_int \<Rightarrow> UINT8 option" where
  "index_UINT8 table i =
     (if 0 \<le> sint i \<and> nat (sint i) < length table then Some (table ! nat (sint i)) else None)"

section \<open>The update loop\<close>

text \<open>
  \<open>while (dataLen--) { crc = ...; data++; }\<close> over the buffer \<open>buf\<close>: \<open>data\<close> is the
  offset of the pointer into the buffer, \<open>dataLen\<close> the number of bytes still to read
  (the argument parser reports the length of the string, never a negative number).
  The result is the register together with the final value of the pointer.
\<close>

fun while_dataLen ::
  "(UINT8 \<Rightarrow> 'w \<Rightarrow> 'w option) \<Rightarrow> UINT8 list \<Rightarrow> nat \<Rightarrow> nat \<Rightarrow> 'w \<Rightarrow> ('w \<times> nat) option" where
  "while_dataLen body buf data 0 crc = Some (crc, data)"
| "while_dataLen body buf data (Suc dataLen) crc =
     (if data < length buf then
        (case body (buf ! data) crc of
           None \<Rightarrow> None
         | Some crc' \<Rightarrow> while_dataLen body buf (Suc data) dataLen crc')
      else None)"

section \<open>The ten entry points\<close>

text \<open>
  Each function takes the arguments in the order of the Python call, \<open>(data, crc,
  table)\<close>, as the argument parser delivers them: the bytes of \<open>data\<close>, the register in
  its C type and the bytes of \<open>table\<close>, whose length is \<open>tableLen\<close>. It checks
  \<open>tableLen\<close>, runs the loop and returns the register, which the C code then converts
  to a Python integer. The index of the table access and the body of the loop are named
  apart from the function, one pair for each function as in the source.
\<close>

subsection \<open>8 bits\<close>

definition crc8_index :: "UINT8 \<Rightarrow> UINT8 \<Rightarrow> c_int" where
  "crc8_index d crc = ucast d XOR ucast crc"

definition crc8_body :: "UINT8 list \<Rightarrow> UINT8 \<Rightarrow> UINT8 \<Rightarrow> UINT8 option" where
  "crc8_body table d crc = index_UINT8 table (crc8_index d crc)"

definition crc8 :: "UINT8 list \<Rightarrow> UINT8 \<Rightarrow> UINT8 list \<Rightarrow> error + UINT8" where
  "crc8 data crc table =
     (if length table \<noteq> 256 then Inl (ValueError ''invalid CRC table'')
      else case while_dataLen (crc8_body table) data 0 (length data) crc of
             None \<Rightarrow> Inl OutOfBounds
           | Some (crc', _) \<Rightarrow> Inr crc')"

definition crc8r_index :: "UINT8 \<Rightarrow> UINT8 \<Rightarrow> c_int" where
  "crc8r_index d crc = ucast d XOR ucast crc"

definition crc8r_body :: "UINT8 list \<Rightarrow> UINT8 \<Rightarrow> UINT8 \<Rightarrow> UINT8 option" where
  "crc8r_body table d crc = index_UINT8 table (crc8r_index d crc)"

definition crc8r :: "UINT8 list \<Rightarrow> UINT8 \<Rightarrow> UINT8 list \<Rightarrow> error + UINT8" where
  "crc8r data crc table =
     (if length table \<noteq> 256 then Inl (ValueError ''invalid CRC table'')
      else case while_dataLen (crc8r_body table) data 0 (length data) crc of
             None \<Rightarrow> Inl OutOfBounds
           | Some (crc', _) \<Rightarrow> Inr crc')"

subsection \<open>16 bits\<close>

definition crc16_index :: "UINT8 \<Rightarrow> UINT16 \<Rightarrow> c_int" where
  "crc16_index d crc = ucast d XOR ucast (BYTE1 (ucast crc :: c_int))"

definition crc16_body :: "endian \<Rightarrow> UINT8 list \<Rightarrow> UINT8 \<Rightarrow> UINT16 \<Rightarrow> UINT16 option" where
  "crc16_body e table d crc =
     map_option (\<lambda>t :: UINT16. ucast ((ucast t :: c_int) XOR push_bit 8 (ucast crc :: c_int)))
       (index_table 2 e table (crc16_index d crc))"

definition crc16 :: "endian \<Rightarrow> UINT8 list \<Rightarrow> UINT16 \<Rightarrow> UINT8 list \<Rightarrow> error + UINT16" where
  "crc16 e data crc table =
     (if length table \<noteq> 256 * 2 then Inl (ValueError ''invalid CRC table'')
      else case while_dataLen (crc16_body e table) data 0 (length data) crc of
             None \<Rightarrow> Inl OutOfBounds
           | Some (crc', _) \<Rightarrow> Inr crc')"

definition crc16r_index :: "UINT8 \<Rightarrow> UINT16 \<Rightarrow> c_int" where
  "crc16r_index d crc = ucast d XOR ucast (BYTE0 (ucast crc :: c_int))"

definition crc16r_body :: "endian \<Rightarrow> UINT8 list \<Rightarrow> UINT8 \<Rightarrow> UINT16 \<Rightarrow> UINT16 option" where
  "crc16r_body e table d crc =
     map_option (\<lambda>t :: UINT16. ucast ((ucast t :: c_int) XOR drop_bit 8 (ucast crc :: c_int)))
       (index_table 2 e table (crc16r_index d crc))"

definition crc16r :: "endian \<Rightarrow> UINT8 list \<Rightarrow> UINT16 \<Rightarrow> UINT8 list \<Rightarrow> error + UINT16" where
  "crc16r e data crc table =
     (if length table \<noteq> 256 * 2 then Inl (ValueError ''invalid CRC table'')
      else case while_dataLen (crc16r_body e table) data 0 (length data) crc of
             None \<Rightarrow> Inl OutOfBounds
           | Some (crc', _) \<Rightarrow> Inr crc')"

subsection \<open>24 bits, carried in a \<open>UINT32\<close>\<close>

definition crc24_index :: "UINT8 \<Rightarrow> UINT32 \<Rightarrow> c_int" where
  "crc24_index d crc = ucast d XOR ucast (BYTE2 crc)"

definition crc24_body :: "endian \<Rightarrow> UINT8 list \<Rightarrow> UINT8 \<Rightarrow> UINT32 \<Rightarrow> UINT32 option" where
  "crc24_body e table d crc =
     map_option (\<lambda>t :: UINT32. t XOR push_bit 8 crc)
       (index_table 4 e table (crc24_index d crc))"

definition crc24 :: "endian \<Rightarrow> UINT8 list \<Rightarrow> UINT32 \<Rightarrow> UINT8 list \<Rightarrow> error + UINT32" where
  "crc24 e data crc table =
     (if length table \<noteq> 256 * 4 then Inl (ValueError ''invalid CRC table'')
      else case while_dataLen (crc24_body e table) data 0 (length data) crc of
             None \<Rightarrow> Inl OutOfBounds
           | Some (crc', _) \<Rightarrow> Inr (crc' AND 0xFFFFFF))"

definition crc24r_index :: "UINT8 \<Rightarrow> UINT32 \<Rightarrow> c_int" where
  "crc24r_index d crc = ucast d XOR ucast (BYTE0 crc)"

definition crc24r_body :: "endian \<Rightarrow> UINT8 list \<Rightarrow> UINT8 \<Rightarrow> UINT32 \<Rightarrow> UINT32 option" where
  "crc24r_body e table d crc =
     map_option (\<lambda>t :: UINT32. t XOR drop_bit 8 crc)
       (index_table 4 e table (crc24r_index d crc))"

definition crc24r :: "endian \<Rightarrow> UINT8 list \<Rightarrow> UINT32 \<Rightarrow> UINT8 list \<Rightarrow> error + UINT32" where
  "crc24r e data crc table =
     (if length table \<noteq> 256 * 4 then Inl (ValueError ''invalid CRC table'')
      else case while_dataLen (crc24r_body e table) data 0 (length data) (crc AND 0xFFFFFF) of
             None \<Rightarrow> Inl OutOfBounds
           | Some (crc', _) \<Rightarrow> Inr crc')"

subsection \<open>32 bits\<close>

definition crc32_index :: "UINT8 \<Rightarrow> UINT32 \<Rightarrow> c_int" where
  "crc32_index d crc = ucast d XOR ucast (BYTE3 crc)"

definition crc32_body :: "endian \<Rightarrow> UINT8 list \<Rightarrow> UINT8 \<Rightarrow> UINT32 \<Rightarrow> UINT32 option" where
  "crc32_body e table d crc =
     map_option (\<lambda>t :: UINT32. t XOR push_bit 8 crc)
       (index_table 4 e table (crc32_index d crc))"

definition crc32 :: "endian \<Rightarrow> UINT8 list \<Rightarrow> UINT32 \<Rightarrow> UINT8 list \<Rightarrow> error + UINT32" where
  "crc32 e data crc table =
     (if length table \<noteq> 256 * 4 then Inl (ValueError ''invalid CRC table'')
      else case while_dataLen (crc32_body e table) data 0 (length data) crc of
             None \<Rightarrow> Inl OutOfBounds
           | Some (crc', _) \<Rightarrow> Inr crc')"

definition crc32r_index :: "UINT8 \<Rightarrow> UINT32 \<Rightarrow> c_int" where
  "crc32r_index d crc = ucast d XOR ucast (BYTE0 crc)"

definition crc32r_body :: "endian \<Rightarrow> UINT8 list \<Rightarrow> UINT8 \<Rightarrow> UINT32 \<Rightarrow> UINT32 option" where
  "crc32r_body e table d crc =
     map_option (\<lambda>t :: UINT32. t XOR drop_bit 8 crc)
       (index_table 4 e table (crc32r_index d crc))"

definition crc32r :: "endian \<Rightarrow> UINT8 list \<Rightarrow> UINT32 \<Rightarrow> UINT8 list \<Rightarrow> error + UINT32" where
  "crc32r e data crc table =
     (if length table \<noteq> 256 * 4 then Inl (ValueError ''invalid CRC table'')
      else case while_dataLen (crc32r_body e table) data 0 (length data) crc of
             None \<Rightarrow> Inl OutOfBounds
           | Some (crc', _) \<Rightarrow> Inr crc')"

subsection \<open>64 bits\<close>

definition crc64_index :: "UINT8 \<Rightarrow> UINT64 \<Rightarrow> c_int" where
  "crc64_index d crc = ucast d XOR ucast (BYTE7 crc)"

definition crc64_body :: "endian \<Rightarrow> UINT8 list \<Rightarrow> UINT8 \<Rightarrow> UINT64 \<Rightarrow> UINT64 option" where
  "crc64_body e table d crc =
     map_option (\<lambda>t :: UINT64. t XOR push_bit 8 crc)
       (index_table 8 e table (crc64_index d crc))"

definition crc64 :: "endian \<Rightarrow> UINT8 list \<Rightarrow> UINT64 \<Rightarrow> UINT8 list \<Rightarrow> error + UINT64" where
  "crc64 e data crc table =
     (if length table \<noteq> 256 * 8 then Inl (ValueError ''invalid CRC table'')
      else case while_dataLen (crc64_body e table) data 0 (length data) crc of
             None \<Rightarrow> Inl OutOfBounds
           | Some (crc', _) \<Rightarrow> Inr crc')"

definition crc64r_index :: "UINT8 \<Rightarrow> UINT64 \<Rightarrow> c_int" where
  "crc64r_index d crc = ucast d XOR ucast (BYTE0 crc)"

definition crc64r_body :: "endian \<Rightarrow> UINT8 list \<Rightarrow> UINT8 \<Rightarrow> UINT64 \<Rightarrow> UINT64 option" where
  "crc64r_body e table d crc =
     map_option (\<lambda>t :: UINT64. t XOR drop_bit 8 crc)
       (index_table 8 e table (crc64r_index d crc))"

definition crc64r :: "endian \<Rightarrow> UINT8 list \<Rightarrow> UINT64 \<Rightarrow> UINT8 list \<Rightarrow> error + UINT64" where
  "crc64r e data crc table =
     (if length table \<noteq> 256 * 8 then Inl (ValueError ''invalid CRC table'')
      else case while_dataLen (crc64r_body e table) data 0 (length data) crc of
             None \<Rightarrow> Inl OutOfBounds
           | Some (crc', _) \<Rightarrow> Inr crc')"

section \<open>The recurrences of the specification\<close>

text \<open>
  The table seen as 256 entries of \<open>sz\<close> bytes, addressed by an 8-bit index.
\<close>

definition table_entry :: "nat \<Rightarrow> endian \<Rightarrow> UINT8 list \<Rightarrow> UINT8 \<Rightarrow> 'a::len word" where
  "table_entry sz e table i = host_word e (take sz (drop (sz * unat i) table))"

text \<open>
  \<open>topByte\<close> extracts bits \<open>[W-8, W-1]\<close> of the register, \<open>bottomByte\<close> bits \<open>[0, 7]\<close>.
\<close>

definition topByte :: "nat \<Rightarrow> 'a::len word \<Rightarrow> UINT8" where
  "topByte W crc = ucast (drop_bit (W - 8) crc)"

definition bottomByte :: "'a::len word \<Rightarrow> UINT8" where
  "bottomByte crc = ucast crc"

text \<open>Width 8, both orders: \<open>crc = table[b xor crc]\<close>.\<close>

definition byte_step :: "UINT8 list \<Rightarrow> UINT8 \<Rightarrow> UINT8 \<Rightarrow> UINT8" where
  "byte_step table crc b = table ! unat (b XOR crc)"

text \<open>
  Normal order: \<open>crc = table[b xor topByte(crc)] xor (crc << 8)\<close>, the shift in the
  width of the register type. Reflected order:
  \<open>crc = table[b xor bottomByte(crc)] xor (crc >> 8)\<close>.
\<close>

definition normal_step :: "nat \<Rightarrow> (UINT8 \<Rightarrow> 'a::len word) \<Rightarrow> 'a word \<Rightarrow> UINT8 \<Rightarrow> 'a word" where
  "normal_step W tbl crc b = tbl (b XOR topByte W crc) XOR push_bit 8 crc"

definition reflected_step :: "(UINT8 \<Rightarrow> 'a::len word) \<Rightarrow> 'a word \<Rightarrow> UINT8 \<Rightarrow> 'a word" where
  "reflected_step tbl crc b = tbl (b XOR bottomByte crc) XOR drop_bit 8 crc"

text \<open>
  Chunking: calling \<open>update\<close> on \<open>A\<close> and then, with the register it returned, on
  \<open>B\<close>: both calls return a register, and the second one is the register that a single
  call on \<open>A @ B\<close> returns.
\<close>

definition chunked_equals_whole ::
  "(UINT8 list \<Rightarrow> 'r \<Rightarrow> error + 'r) \<Rightarrow> UINT8 list \<Rightarrow> UINT8 list \<Rightarrow> 'r \<Rightarrow> bool" where
  "chunked_equals_whole update A B r =
     (case update A r of
        Inl _ \<Rightarrow> False
      | Inr r1 \<Rightarrow>
          (case update B r1 of
             Inl _ \<Rightarrow> False
           | Inr r2 \<Rightarrow> update (A @ B) r = Inr r2))"

section \<open>Auxiliary facts\<close>

subsection \<open>Indices and table reads\<close>

lemma sint_index: "sint ((ucast (d::UINT8) :: c_int) XOR ucast (b::UINT8)) = uint (d XOR b)"
proof -
  have "uint (d XOR b) < 2 ^ 8" using uint_bounded [of "d XOR b"] by simp
  then have "uint (d XOR b) < 2 ^ 31" by simp
  moreover have "- (2 ^ 31) \<le> uint (d XOR b)" by (rule order_trans [of _ 0]) simp_all
  ultimately have "signed_take_bit 31 (uint (d XOR b)) = uint (d XOR b)"
    by (rule signed_take_bit_int_eq_self [rotated])
  then show ?thesis by (simp flip: unsigned_xor_eq add: signed_ucast_eq)
qed

lemma unat_byte_less: "unat (x :: UINT8) < 256"
proof -
  have "unat x < 2 ^ LENGTH(8)" by (rule unsigned_less)
  then show ?thesis by simp
qed

lemma index_table_valid:
  fixes d b :: UINT8
  assumes "length table = 256 * sz"
  shows "index_table sz e table (ucast d XOR ucast b) = Some (table_entry sz e table (d XOR b))"
proof -
  have "sz * unat (d XOR b) + sz = sz * Suc (unat (d XOR b))" by simp
  also have "\<dots> \<le> sz * 256"
    using unat_byte_less [of "d XOR b"] by (intro mult_le_mono2) simp
  finally have "sz * unat (d XOR b) + sz \<le> length table" using assms by (simp add: mult.commute)
  then show ?thesis
    by (simp add: index_table_def table_entry_def sint_index)
qed

lemma index_UINT8_valid:
  fixes d b :: UINT8
  assumes "length table = 256"
  shows "index_UINT8 table (ucast d XOR ucast b) = Some (table ! unat (d XOR b))"
  using assms unat_byte_less [of "d XOR b"] by (simp add: index_UINT8_def sint_index)

lemma M24: "(0xFFFFFF :: UINT32) = mask 24"
  by (simp add: mask_eq_exp_minus_1)

lemma le_M24: "(x :: UINT32) \<le> 0xFFFFFF \<longleftrightarrow> x AND 0xFFFFFF = x"
proof -
  have "x \<le> 0xFFFFFF \<longleftrightarrow> uint x < 2 ^ 24" by (simp add: word_le_def) arith
  then show ?thesis by (simp add: M24 mask_eq_iff)
qed

lemma BYTE2_top: "BYTE2 (c::UINT32) = topByte 24 c"
  by (simp add: BYTE2_def topByte_def)

lemma BYTE3_top: "BYTE3 (c::UINT32) = topByte 32 c"
  by (simp add: BYTE3_def topByte_def)

lemma BYTE7_top: "BYTE7 (c::UINT64) = topByte 64 c"
  by (simp add: BYTE7_def topByte_def)

lemma topByte_bits: "bit (topByte W (c::'a::len word)) n \<longleftrightarrow> n < 8 \<and> bit c (W - 8 + n)"
  by (auto simp add: topByte_def bit_simps dest: bit_imp_le_length)

lemma bottomByte_bits: "bit (bottomByte (c::'a::len word)) n \<longleftrightarrow> n < 8 \<and> bit c n"
  by (auto simp add: bottomByte_def bit_simps dest: bit_imp_le_length)

lemma normal24_mask: "normal_step 24 T ((c::UINT32) AND 0xFFFFFF) b = normal_step 24 T c b"
proof -
  have "topByte 24 (c AND mask 24) = topByte 24 c"
    by (rule bit_word_eqI) (auto simp add: topByte_bits bit_simps)
  moreover have "push_bit 8 (c AND mask 24) = push_bit 8 c"
    by (rule bit_word_eqI) (auto simp add: bit_simps)
  ultimately show ?thesis by (simp add: normal_step_def M24)
qed

lemma drop8_M24: "drop_bit 8 (c::UINT32) AND 0xFFFFFF = drop_bit 8 c"
  unfolding M24 by (rule bit_word_eqI) (auto simp add: bit_simps dest: bit_imp_le_length)

lemma reflected24_bound:
  assumes "T (b XOR bottomByte c) \<le> 0xFFFFFF"
  shows "reflected_step T (c::UINT32) b \<le> 0xFFFFFF"
  using assms by (simp add: le_M24 reflected_step_def bit.conj_xor_distrib2 drop8_M24)

subsection \<open>Integer promotion in the 16-bit steps\<close>

lemma promote16_shl:
  "(ucast ((ucast (t::UINT16) :: c_int) XOR push_bit 8 (ucast (c::UINT16) :: c_int)) :: UINT16)
     = t XOR push_bit 8 c"
  by (rule bit_word_eqI) (auto simp add: bit_simps)

lemma promote16_shr:
  "(ucast ((ucast (t::UINT16) :: c_int) XOR drop_bit 8 (ucast (c::UINT16) :: c_int)) :: UINT16)
     = t XOR drop_bit 8 c"
  by (rule bit_word_eqI) (auto simp add: bit_simps)

lemma BYTE1_top: "BYTE1 (ucast (c::UINT16) :: c_int) = topByte 16 c"
  unfolding BYTE1_def topByte_def
  by (rule bit_word_eqI) (auto simp add: bit_simps)

lemma BYTE0_promoted: "BYTE0 (ucast (c::UINT16) :: c_int) = bottomByte c"
  unfolding BYTE0_def bottomByte_def
  by (rule bit_word_eqI) (auto simp add: bit_simps)

lemma BYTE0_bottom: "BYTE0 c = bottomByte c"
  by (simp add: BYTE0_def bottomByte_def)

subsection \<open>The loop as a fold\<close>

lemma while_fold:
  assumes "\<And>d c. body d c = Some (f c d)"
  shows "p + n \<le> length buf \<Longrightarrow>
    while_dataLen body buf p n crc = Some (foldl f crc (take n (drop p buf)), p + n)"
proof (induction n arbitrary: p crc)
  case 0
  then show ?case by simp
next
  case (Suc n)
  then have lt: "p < length buf" and le: "Suc p + n \<le> length buf" by simp_all
  have "take (Suc n) (drop p buf) = buf ! p # take n (drop (Suc p) buf)"
    using lt by (simp flip: Cons_nth_drop_Suc)
  then show ?case using lt Suc.IH [OF le] by (simp add: assms)
qed

lemma while_whole:
  assumes "\<And>d c. body d c = Some (f c d)"
  shows "while_dataLen body data 0 (length data) crc = Some (foldl f crc data, length data)"
  using while_fold [of body f 0 "length data" data crc, OF assms] by simp

subsection \<open>One iteration of each loop\<close>

lemma crc8_body_valid:
  "length table = 256 \<Longrightarrow> crc8_body table d c = Some (byte_step table c d)"
  by (simp add: crc8_body_def crc8_index_def index_UINT8_valid byte_step_def)

lemma crc8r_body_valid:
  "length table = 256 \<Longrightarrow> crc8r_body table d c = Some (byte_step table c d)"
  by (simp add: crc8r_body_def crc8r_index_def index_UINT8_valid byte_step_def)

lemma crc16_body_valid:
  "length table = 256 * 2 \<Longrightarrow>
     crc16_body e table d c = Some (normal_step 16 (table_entry 2 e table) c d)"
  by (simp add: index_table_valid [where sz = 2] crc16_body_def crc16_index_def normal_step_def BYTE1_top promote16_shl)

lemma crc16r_body_valid:
  "length table = 256 * 2 \<Longrightarrow>
     crc16r_body e table d c = Some (reflected_step (table_entry 2 e table) c d)"
  by (simp add: index_table_valid [where sz = 2] crc16r_body_def crc16r_index_def reflected_step_def BYTE0_promoted promote16_shr)

lemma crc24_body_valid:
  "length table = 256 * 4 \<Longrightarrow>
     crc24_body e table d c = Some (normal_step 24 (table_entry 4 e table) c d)"
  by (simp add: index_table_valid [where sz = 4] crc24_body_def crc24_index_def normal_step_def BYTE2_top)

lemma crc24r_body_valid:
  "length table = 256 * 4 \<Longrightarrow>
     crc24r_body e table d c = Some (reflected_step (table_entry 4 e table) c d)"
  by (simp add: index_table_valid [where sz = 4] crc24r_body_def crc24r_index_def reflected_step_def BYTE0_bottom)

lemma crc32_body_valid:
  "length table = 256 * 4 \<Longrightarrow>
     crc32_body e table d c = Some (normal_step 32 (table_entry 4 e table) c d)"
  by (simp add: index_table_valid [where sz = 4] crc32_body_def crc32_index_def normal_step_def BYTE3_top)

lemma crc32r_body_valid:
  "length table = 256 * 4 \<Longrightarrow>
     crc32r_body e table d c = Some (reflected_step (table_entry 4 e table) c d)"
  by (simp add: index_table_valid [where sz = 4] crc32r_body_def crc32r_index_def reflected_step_def BYTE0_bottom)

lemma crc64_body_valid:
  "length table = 256 * 8 \<Longrightarrow>
     crc64_body e table d c = Some (normal_step 64 (table_entry 8 e table) c d)"
  by (simp add: index_table_valid [where sz = 8] crc64_body_def crc64_index_def normal_step_def BYTE7_top)

lemma crc64r_body_valid:
  "length table = 256 * 8 \<Longrightarrow>
     crc64r_body e table d c = Some (reflected_step (table_entry 8 e table) c d)"
  by (simp add: index_table_valid [where sz = 8] crc64r_body_def crc64r_index_def reflected_step_def BYTE0_bottom)

subsection \<open>Each entry point as a fold over the input\<close>

lemma crc8_fold:
  "length table = 256 \<Longrightarrow> crc8 data crc table = Inr (foldl (byte_step table) crc data)"
  by (simp add: crc8_def while_whole [of "crc8_body table" "byte_step table"] crc8_body_valid)

lemma crc8r_fold:
  "length table = 256 \<Longrightarrow> crc8r data crc table = Inr (foldl (byte_step table) crc data)"
  by (simp add: crc8r_def while_whole [of "crc8r_body table" "byte_step table"] crc8r_body_valid)

lemma crc16_fold:
  "length table = 256 * 2 \<Longrightarrow>
     crc16 e data crc table = Inr (foldl (normal_step 16 (table_entry 2 e table)) crc data)"
  by (simp add: crc16_def crc16_body_valid
      while_whole [of "crc16_body e table" "normal_step 16 (table_entry 2 e table)"])

lemma crc16r_fold:
  "length table = 256 * 2 \<Longrightarrow>
     crc16r e data crc table = Inr (foldl (reflected_step (table_entry 2 e table)) crc data)"
  by (simp add: crc16r_def crc16r_body_valid
      while_whole [of "crc16r_body e table" "reflected_step (table_entry 2 e table)"])

lemma crc24_fold:
  "length table = 256 * 4 \<Longrightarrow>
     crc24 e data crc table = Inr (foldl (normal_step 24 (table_entry 4 e table)) crc data AND 0xFFFFFF)"
  by (simp add: crc24_def crc24_body_valid
      while_whole [of "crc24_body e table" "normal_step 24 (table_entry 4 e table)"])

lemma crc24r_fold:
  "length table = 256 * 4 \<Longrightarrow>
     crc24r e data crc table = Inr (foldl (reflected_step (table_entry 4 e table)) (crc AND 0xFFFFFF) data)"
  by (simp add: crc24r_def crc24r_body_valid
      while_whole [of "crc24r_body e table" "reflected_step (table_entry 4 e table)"])

lemma crc32_fold:
  "length table = 256 * 4 \<Longrightarrow>
     crc32 e data crc table = Inr (foldl (normal_step 32 (table_entry 4 e table)) crc data)"
  by (simp add: crc32_def crc32_body_valid
      while_whole [of "crc32_body e table" "normal_step 32 (table_entry 4 e table)"])

lemma crc32r_fold:
  "length table = 256 * 4 \<Longrightarrow>
     crc32r e data crc table = Inr (foldl (reflected_step (table_entry 4 e table)) crc data)"
  by (simp add: crc32r_def crc32r_body_valid
      while_whole [of "crc32r_body e table" "reflected_step (table_entry 4 e table)"])

lemma crc64_fold:
  "length table = 256 * 8 \<Longrightarrow>
     crc64 e data crc table = Inr (foldl (normal_step 64 (table_entry 8 e table)) crc data)"
  by (simp add: crc64_def crc64_body_valid
      while_whole [of "crc64_body e table" "normal_step 64 (table_entry 8 e table)"])

lemma crc64r_fold:
  "length table = 256 * 8 \<Longrightarrow>
     crc64r e data crc table = Inr (foldl (reflected_step (table_entry 8 e table)) crc data)"
  by (simp add: crc64r_def crc64r_body_valid
      while_whole [of "crc64r_body e table" "reflected_step (table_entry 8 e table)"])

subsection \<open>Tables whose 256 entries are all the same\<close>

lemma drop_concat_replicate:
  "k \<le> n \<Longrightarrow> drop (length w * k) (concat (replicate n w)) = concat (replicate (n - k) w)"
proof (induction k arbitrary: n)
  case 0
  then show ?case by simp
next
  case (Suc k)
  then obtain m where n: "n = Suc m" and le: "k \<le> m" by (cases n) simp_all
  show ?case using Suc.IH [OF le] by (simp add: n)
qed

lemma table_entry_constant:
  assumes "length w = sz" and "unat i < n"
  shows "table_entry sz e (concat (replicate n w)) i = host_word e w"
proof -
  obtain m where m: "n - unat i = Suc m" using assms(2) by (cases "n - unat i") simp_all
  have "drop (sz * unat i) (concat (replicate n w)) = concat (replicate (n - unat i) w)"
    using drop_concat_replicate [of "unat i" n w] assms by simp
  then show ?thesis using assms(1) by (simp add: table_entry_def m)
qed

lemma length_constant_table: "length (concat (replicate n w)) = n * length w"
  by (induction n) simp_all

subsection \<open>The 24-bit register in its 32-bit carrier\<close>

lemma normal24_fold_mask:
  "foldl (normal_step 24 T) ((c::UINT32) AND 0xFFFFFF) B AND 0xFFFFFF
     = foldl (normal_step 24 T) c B AND 0xFFFFFF"
  by (cases B) (simp_all add: normal24_mask)

lemma normal24_stepwise:
  "foldl (\<lambda>c b. normal_step 24 T c b AND 0xFFFFFF) ((c::UINT32) AND 0xFFFFFF) data
     = foldl (normal_step 24 T) c data AND 0xFFFFFF"
proof (induction data arbitrary: c)
  case Nil
  then show ?case by simp
next
  case (Cons b data)
  show ?case using Cons.IH [of "normal_step 24 T c b"] by (simp add: normal24_mask)
qed

lemma normal24_fold_agree:
  assumes "(c1::UINT32) AND 0xFFFFFF = c2 AND 0xFFFFFF"
  shows "foldl (normal_step 24 T) c1 B AND 0xFFFFFF = foldl (normal_step 24 T) c2 B AND 0xFFFFFF"
  using normal24_fold_mask [of T c1 B] normal24_fold_mask [of T c2 B] assms by simp

lemma reflected24_fold_bound:
  assumes "\<And>i. T i \<le> (0xFFFFFF::UINT32)"
  shows "c \<le> 0xFFFFFF \<Longrightarrow> foldl (reflected_step T) c A \<le> 0xFFFFFF"
proof (induction A arbitrary: c)
  case Nil
  then show ?case by simp
next
  case (Cons b A)
  have "reflected_step T c b \<le> 0xFFFFFF" by (rule reflected24_bound) (rule assms)
  then show ?case using Cons.IH by simp
qed

lemma and_M24_le: "(c::UINT32) AND 0xFFFFFF \<le> 0xFFFFFF"
  by (rule word_and_le1)

lemma index_range:
  "0 \<le> sint ((ucast (d::UINT8) :: c_int) XOR ucast (b::UINT8)) \<and>
   sint ((ucast d :: c_int) XOR ucast b) \<le> 255"
proof -
  have "uint (d XOR b) < 2 ^ LENGTH(8)" by (rule unsigned_less)
  then show ?thesis by (simp add: sint_index)
qed

subsection \<open>Two calls against one\<close>

lemma chunked_fold:
  assumes "\<And>d c. update d c = Inr (foldl step c d)"
  shows "chunked_equals_whole update A B r"
  by (simp add: chunked_equals_whole_def assms)

lemma chunked_crc24:
  assumes "length table = 256 * 4"
  shows "chunked_equals_whole (\<lambda>d c. crc24 e d c table) A B r"
  using assms by (simp add: chunked_equals_whole_def crc24_fold normal24_fold_mask)

lemma chunked_crc24r:
  assumes "length table = 256 * 4" and "\<And>i. table_entry 4 e table i \<le> (0xFFFFFF::UINT32)"
  shows "chunked_equals_whole (\<lambda>d c. crc24r e d c table) A B r"
proof -
  have "foldl (reflected_step (table_entry 4 e table)) (r AND 0xFFFFFF) A \<le> 0xFFFFFF"
    by (rule reflected24_fold_bound) (rule assms(2), rule and_M24_le)
  then show ?thesis
    using assms(1) by (simp add: chunked_equals_whole_def crc24r_fold le_M24)
qed

subsection \<open>Each loop as its entry point starts it\<close>

lemma crc8_loop_whole:
  "length table = 256 \<Longrightarrow>
     while_dataLen (crc8_body table) data 0 (length data) crc
       = Some (foldl (byte_step table) crc data, length data)"
  by (simp add: crc8_body_valid while_whole [of "crc8_body table" "byte_step table"])

lemma crc8r_loop_whole:
  "length table = 256 \<Longrightarrow>
     while_dataLen (crc8r_body table) data 0 (length data) crc
       = Some (foldl (byte_step table) crc data, length data)"
  by (simp add: crc8r_body_valid while_whole [of "crc8r_body table" "byte_step table"])

lemma crc16_loop_whole:
  "length table = 256 * 2 \<Longrightarrow>
     while_dataLen (crc16_body e table) data 0 (length data) crc
       = Some (foldl (normal_step 16 (table_entry 2 e table)) crc data, length data)"
  by (simp add: crc16_body_valid while_whole [of "crc16_body e table" "normal_step 16 (table_entry 2 e table)"])

lemma crc16r_loop_whole:
  "length table = 256 * 2 \<Longrightarrow>
     while_dataLen (crc16r_body e table) data 0 (length data) crc
       = Some (foldl (reflected_step (table_entry 2 e table)) crc data, length data)"
  by (simp add: crc16r_body_valid while_whole [of "crc16r_body e table" "reflected_step (table_entry 2 e table)"])

lemma crc24_loop_whole:
  "length table = 256 * 4 \<Longrightarrow>
     while_dataLen (crc24_body e table) data 0 (length data) crc
       = Some (foldl (normal_step 24 (table_entry 4 e table)) crc data, length data)"
  by (simp add: crc24_body_valid while_whole [of "crc24_body e table" "normal_step 24 (table_entry 4 e table)"])

lemma crc24r_loop_whole:
  "length table = 256 * 4 \<Longrightarrow>
     while_dataLen (crc24r_body e table) data 0 (length data) crc
       = Some (foldl (reflected_step (table_entry 4 e table)) crc data, length data)"
  by (simp add: crc24r_body_valid while_whole [of "crc24r_body e table" "reflected_step (table_entry 4 e table)"])

lemma crc32_loop_whole:
  "length table = 256 * 4 \<Longrightarrow>
     while_dataLen (crc32_body e table) data 0 (length data) crc
       = Some (foldl (normal_step 32 (table_entry 4 e table)) crc data, length data)"
  by (simp add: crc32_body_valid while_whole [of "crc32_body e table" "normal_step 32 (table_entry 4 e table)"])

lemma crc32r_loop_whole:
  "length table = 256 * 4 \<Longrightarrow>
     while_dataLen (crc32r_body e table) data 0 (length data) crc
       = Some (foldl (reflected_step (table_entry 4 e table)) crc data, length data)"
  by (simp add: crc32r_body_valid while_whole [of "crc32r_body e table" "reflected_step (table_entry 4 e table)"])

lemma crc64_loop_whole:
  "length table = 256 * 8 \<Longrightarrow>
     while_dataLen (crc64_body e table) data 0 (length data) crc
       = Some (foldl (normal_step 64 (table_entry 8 e table)) crc data, length data)"
  by (simp add: crc64_body_valid while_whole [of "crc64_body e table" "normal_step 64 (table_entry 8 e table)"])

lemma crc64r_loop_whole:
  "length table = 256 * 8 \<Longrightarrow>
     while_dataLen (crc64r_body e table) data 0 (length data) crc
       = Some (foldl (reflected_step (table_entry 8 e table)) crc data, length data)"
  by (simp add: crc64r_body_valid while_whole [of "crc64r_body e table" "reflected_step (table_entry 8 e table)"])

section \<open>The claims\<close>

text \<open>
  C1. For the widths 16, 24, 32 and 64, a table of the valid length, any initial register
  and any input, the normal-order update function returns the register obtained by
  folding the input bytes, in order, through
  \<open>crc := table[b xor topByte(crc)] xor (crc << 8)\<close>, the shift in the width of the
  register type; for width 24 the result is masked to 24 bits. (The source masks once,
  on return; masking the register at the start and after every step gives the same
  value, which is the third equation.)
\<close>

theorem C1_normal_update:
  "(length t16 = 256 * 2 \<longrightarrow>
      crc16 e data c16 t16 = Inr (foldl (normal_step 16 (table_entry 2 e t16)) c16 data)) \<and>
   (length t32 = 256 * 4 \<longrightarrow>
      crc24 e data c32 t32
        = Inr (foldl (normal_step 24 (table_entry 4 e t32)) c32 data AND 0xFFFFFF) \<and>
      crc24 e data c32 t32
        = Inr (foldl (\<lambda>c b. normal_step 24 (table_entry 4 e t32) c b AND 0xFFFFFF)
                 (c32 AND 0xFFFFFF) data) \<and>
      crc32 e data c32 t32 = Inr (foldl (normal_step 32 (table_entry 4 e t32)) c32 data)) \<and>
   (length t64 = 256 * 8 \<longrightarrow>
      crc64 e data c64 t64 = Inr (foldl (normal_step 64 (table_entry 8 e t64)) c64 data))"
  by (simp add: crc16_fold crc24_fold crc32_fold crc64_fold normal24_stepwise)

theorem C1_normal_update_witness:
  "crc16 LittleEndian [1, 2] 0 (concat (replicate 256 [0x21, 0x10])) = Inr 0x3121 \<and>
   crc24 LittleEndian [1, 2] 0xAB000000 (concat (replicate 256 [0x56, 0x34, 0x12, 0x9A]))
     = Inr 0x266256 \<and>
   crc32 LittleEndian [1, 2] 0xAB000000 (concat (replicate 256 [0x56, 0x34, 0x12, 0x9A]))
     = Inr 0x88266256 \<and>
   crc64 LittleEndian [1, 2] 0 (concat (replicate 256 [8, 7, 6, 5, 4, 3, 2, 1]))
     = Inr 216461958017257224"
  using C1_normal_update [where e = LittleEndian and data = "[1, 2]"
      and ?t16.0 = "concat (replicate 256 [0x21, 0x10])" and ?c16.0 = 0
      and ?t32.0 = "concat (replicate 256 [0x56, 0x34, 0x12, 0x9A])" and ?c32.0 = "0xAB000000"
      and ?t64.0 = "concat (replicate 256 [8, 7, 6, 5, 4, 3, 2, 1])" and ?c64.0 = 0]
  by (simp add: length_constant_table normal_step_def topByte_def table_entry_constant
      unat_byte_less host_word_def)

text \<open>
  C2, as stated, fails for width 24: \<open>_crc24r\<close> clears bits 24 to 31 of the initial
  register before the loop, so the fold does not start from the register supplied. Here
  the call returns 0, and the fold of the recurrence from \<open>0xFF000000\<close> is \<open>0xFF0000\<close>.
\<close>

theorem C2_reflected_update_counterexample:
  "length (concat (replicate 256 [0, 0, 0, 0 :: UINT8])) = 256 * 4 \<and>
   crc24r LittleEndian [0] 0xFF000000 (concat (replicate 256 [0, 0, 0, 0])) = Inr 0 \<and>
   foldl (reflected_step (table_entry 4 LittleEndian (concat (replicate 256 [0, 0, 0, 0]))))
       0xFF000000 [0]
     = (0xFF0000 :: UINT32) \<and>
   crc24r LittleEndian [0] 0xFF000000 (concat (replicate 256 [0, 0, 0, 0]))
     \<noteq> Inr (foldl
         (reflected_step (table_entry 4 LittleEndian (concat (replicate 256 [0, 0, 0, 0]))))
         0xFF000000 [0])"
  by (simp add: crc24r_fold length_constant_table reflected_step_def bottomByte_def
      table_entry_constant unat_byte_less host_word_def)

text \<open>
  C2, amended. For the widths 16, 24, 32 and 64, a table of the valid length, any initial
  register and any input, the reflected-order update function returns the register
  obtained by folding the input bytes, in order, through
  \<open>crc := table[b xor bottomByte(crc)] xor (crc >> 8)\<close>; for width 24 the fold starts
  from the initial register masked to its low 24 bits.
\<close>

theorem C2_reflected_update:
  "(length t16 = 256 * 2 \<longrightarrow>
      crc16r e data c16 t16 = Inr (foldl (reflected_step (table_entry 2 e t16)) c16 data)) \<and>
   (length t32 = 256 * 4 \<longrightarrow>
      crc24r e data c32 t32
        = Inr (foldl (reflected_step (table_entry 4 e t32)) (c32 AND 0xFFFFFF) data) \<and>
      crc32r e data c32 t32 = Inr (foldl (reflected_step (table_entry 4 e t32)) c32 data)) \<and>
   (length t64 = 256 * 8 \<longrightarrow>
      crc64r e data c64 t64 = Inr (foldl (reflected_step (table_entry 8 e t64)) c64 data))"
  by (simp add: crc16r_fold crc24r_fold crc32r_fold crc64r_fold)

theorem C2_reflected_update_witness:
  "crc16r BigEndian [1, 2] 0 (concat (replicate 256 [0x21, 0x10])) = Inr 0x2131 \<and>
   crc24r BigEndian [1, 2] 0xAB000000 (concat (replicate 256 [0, 0x56, 0x34, 0x12]))
     = Inr 0x566226 \<and>
   crc32r BigEndian [1, 2] 0xAB000000 (concat (replicate 256 [0, 0x56, 0x34, 0x12]))
     = Inr 0x56C926 \<and>
   crc64r BigEndian [1, 2] 0 (concat (replicate 256 [8, 7, 6, 5, 4, 3, 2, 1]))
     = Inr 580683989367849219"
  using C2_reflected_update [where e = BigEndian and data = "[1, 2]"
      and ?t16.0 = "concat (replicate 256 [0x21, 0x10])" and ?c16.0 = 0
      and ?t32.0 = "concat (replicate 256 [0, 0x56, 0x34, 0x12])" and ?c32.0 = "0xAB000000"
      and ?t64.0 = "concat (replicate 256 [8, 7, 6, 5, 4, 3, 2, 1])" and ?c64.0 = 0]
  by (simp add: length_constant_table reflected_step_def bottomByte_def table_entry_constant
      unat_byte_less host_word_def)

text \<open>
  C3, as stated, fails for the 24-bit reflected variant: \<open>_crc24r\<close> masks the register
  on entry only, so a table entry with a non-zero high byte puts bits 24 to 31 into the
  returned register, and the next call drops them where the single call shifts them
  down. With every entry \<open>0xFFFFFFFF\<close>, two calls on one zero byte each end in
  \<open>0xFFFF0000\<close>, one call on two zero bytes in \<open>0xFF000000\<close>.
\<close>

theorem C3_chunking_counterexample:
  "length (concat (replicate 256 [0xFF, 0xFF, 0xFF, 0xFF :: UINT8])) = 256 * 4 \<and>
   crc24r LittleEndian [0] 0 (concat (replicate 256 [0xFF, 0xFF, 0xFF, 0xFF]))
     = Inr 0xFFFFFFFF \<and>
   crc24r LittleEndian [0] 0xFFFFFFFF (concat (replicate 256 [0xFF, 0xFF, 0xFF, 0xFF]))
     = Inr 0xFFFF0000 \<and>
   crc24r LittleEndian ([0] @ [0]) 0 (concat (replicate 256 [0xFF, 0xFF, 0xFF, 0xFF]))
     = Inr 0xFF000000 \<and>
   \<not> chunked_equals_whole
       (\<lambda>d c. crc24r LittleEndian d c (concat (replicate 256 [0xFF, 0xFF, 0xFF, 0xFF])))
       [0] [0] 0"
  by (simp add: chunked_equals_whole_def crc24r_fold length_constant_table reflected_step_def
      bottomByte_def table_entry_constant unat_byte_less host_word_def)

text \<open>
  C3, amended. For every variant other than the 24-bit reflected one, every table of the
  valid length, every initial register and all byte sequences \<open>A\<close> and \<open>B\<close>, updating
  with \<open>A\<close> and then updating the returned register with \<open>B\<close> gives the register that
  one update with \<open>A @ B\<close> gives. For the 24-bit reflected variant the same holds for
  every table of the valid length whose entries are all at most \<open>0xFFFFFF\<close>.
\<close>

theorem C3_chunking:
  "(length t8 = 256 \<longrightarrow>
      chunked_equals_whole (\<lambda>d c. crc8 d c t8) A B c8 \<and>
      chunked_equals_whole (\<lambda>d c. crc8r d c t8) A B c8) \<and>
   (length t16 = 256 * 2 \<longrightarrow>
      chunked_equals_whole (\<lambda>d c. crc16 e d c t16) A B c16 \<and>
      chunked_equals_whole (\<lambda>d c. crc16r e d c t16) A B c16) \<and>
   (length t32 = 256 * 4 \<longrightarrow>
      chunked_equals_whole (\<lambda>d c. crc24 e d c t32) A B c32 \<and>
      ((\<forall>i. table_entry 4 e t32 i \<le> (0xFFFFFF :: UINT32)) \<longrightarrow>
         chunked_equals_whole (\<lambda>d c. crc24r e d c t32) A B c32) \<and>
      chunked_equals_whole (\<lambda>d c. crc32 e d c t32) A B c32 \<and>
      chunked_equals_whole (\<lambda>d c. crc32r e d c t32) A B c32) \<and>
   (length t64 = 256 * 8 \<longrightarrow>
      chunked_equals_whole (\<lambda>d c. crc64 e d c t64) A B c64 \<and>
      chunked_equals_whole (\<lambda>d c. crc64r e d c t64) A B c64)"
proof (intro conjI impI)
  assume "length t8 = 256"
  then show "chunked_equals_whole (\<lambda>d c. crc8 d c t8) A B c8"
    and "chunked_equals_whole (\<lambda>d c. crc8r d c t8) A B c8"
    by (rule chunked_fold [OF crc8_fold], rule chunked_fold [OF crc8r_fold])
next
  assume "length t16 = 256 * 2"
  then show "chunked_equals_whole (\<lambda>d c. crc16 e d c t16) A B c16"
    and "chunked_equals_whole (\<lambda>d c. crc16r e d c t16) A B c16"
    by (rule chunked_fold [OF crc16_fold], rule chunked_fold [OF crc16r_fold])
next
  assume len: "length t32 = 256 * 4"
  then show "chunked_equals_whole (\<lambda>d c. crc24 e d c t32) A B c32"
    by (rule chunked_crc24)
  from len show "chunked_equals_whole (\<lambda>d c. crc32 e d c t32) A B c32"
    and "chunked_equals_whole (\<lambda>d c. crc32r e d c t32) A B c32"
    by (rule chunked_fold [OF crc32_fold], rule chunked_fold [OF crc32r_fold])
  assume "\<forall>i. table_entry 4 e t32 i \<le> (0xFFFFFF :: UINT32)"
  with len show "chunked_equals_whole (\<lambda>d c. crc24r e d c t32) A B c32"
    by (intro chunked_crc24r) simp_all
next
  assume "length t64 = 256 * 8"
  then show "chunked_equals_whole (\<lambda>d c. crc64 e d c t64) A B c64"
    and "chunked_equals_whole (\<lambda>d c. crc64r e d c t64) A B c64"
    by (rule chunked_fold [OF crc64_fold], rule chunked_fold [OF crc64r_fold])
qed

theorem C3_chunking_witness:
  "chunked_equals_whole (\<lambda>d c. crc8 d c (replicate 256 7)) [1] [2, 3] 0 \<and>
   chunked_equals_whole (\<lambda>d c. crc8r d c (replicate 256 7)) [1] [2, 3] 0 \<and>
   chunked_equals_whole
     (\<lambda>d c. crc16 LittleEndian d c (concat (replicate 256 [0x21, 0x10]))) [1] [2, 3] 0 \<and>
   chunked_equals_whole
     (\<lambda>d c. crc16r LittleEndian d c (concat (replicate 256 [0x21, 0x10]))) [1] [2, 3] 0 \<and>
   chunked_equals_whole
     (\<lambda>d c. crc24 LittleEndian d c (concat (replicate 256 [0x56, 0x34, 0x12, 0])))
     [1] [2, 3] 0xAB000000 \<and>
   chunked_equals_whole
     (\<lambda>d c. crc24r LittleEndian d c (concat (replicate 256 [0x56, 0x34, 0x12, 0])))
     [1] [2, 3] 0xAB000000 \<and>
   chunked_equals_whole
     (\<lambda>d c. crc32 LittleEndian d c (concat (replicate 256 [0x56, 0x34, 0x12, 0])))
     [1] [2, 3] 0xAB000000 \<and>
   chunked_equals_whole
     (\<lambda>d c. crc32r LittleEndian d c (concat (replicate 256 [0x56, 0x34, 0x12, 0])))
     [1] [2, 3] 0xAB000000 \<and>
   chunked_equals_whole
     (\<lambda>d c. crc64 LittleEndian d c (concat (replicate 256 [8, 7, 6, 5, 4, 3, 2, 1])))
     [1] [2, 3] 0 \<and>
   chunked_equals_whole
     (\<lambda>d c. crc64r LittleEndian d c (concat (replicate 256 [8, 7, 6, 5, 4, 3, 2, 1])))
     [1] [2, 3] 0"
  using C3_chunking [where e = LittleEndian and A = "[1]" and B = "[2, 3]"
      and ?t8.0 = "replicate 256 7" and ?c8.0 = 0
      and ?t16.0 = "concat (replicate 256 [0x21, 0x10])" and ?c16.0 = 0
      and ?t32.0 = "concat (replicate 256 [0x56, 0x34, 0x12, 0])" and ?c32.0 = "0xAB000000"
      and ?t64.0 = "concat (replicate 256 [8, 7, 6, 5, 4, 3, 2, 1])" and ?c64.0 = 0]
  by (simp add: length_constant_table table_entry_constant unat_byte_less host_word_def)

text \<open>
  C4. For each of the ten entry points, when the byte length of the table differs from
  256 times the entry size (1, 2, 4, 4, 8 bytes for the widths 8, 16, 24, 32, 64), the call
  fails with the error whose message is \<open>invalid CRC table\<close>, whatever the data and the
  register: no register is returned and the loop is not entered.
\<close>

theorem C4_invalid_table:
  "(length t \<noteq> 256 \<longrightarrow>
      crc8 data c8 t = Inl (ValueError ''invalid CRC table'') \<and>
      crc8r data c8 t = Inl (ValueError ''invalid CRC table'')) \<and>
   (length t \<noteq> 256 * 2 \<longrightarrow>
      crc16 e data c16 t = Inl (ValueError ''invalid CRC table'') \<and>
      crc16r e data c16 t = Inl (ValueError ''invalid CRC table'')) \<and>
   (length t \<noteq> 256 * 4 \<longrightarrow>
      crc24 e data c32 t = Inl (ValueError ''invalid CRC table'') \<and>
      crc24r e data c32 t = Inl (ValueError ''invalid CRC table'') \<and>
      crc32 e data c32 t = Inl (ValueError ''invalid CRC table'') \<and>
      crc32r e data c32 t = Inl (ValueError ''invalid CRC table'')) \<and>
   (length t \<noteq> 256 * 8 \<longrightarrow>
      crc64 e data c64 t = Inl (ValueError ''invalid CRC table'') \<and>
      crc64r e data c64 t = Inl (ValueError ''invalid CRC table''))"
  by (simp add: crc8_def crc8r_def crc16_def crc16r_def crc24_def crc24r_def
      crc32_def crc32r_def crc64_def crc64r_def)

theorem C4_invalid_table_witness:
  "crc8 [1, 2, 3] 0 (replicate 255 0) = Inl (ValueError ''invalid CRC table'') \<and>
   crc8r [1, 2, 3] 0 (replicate 255 0) = Inl (ValueError ''invalid CRC table'') \<and>
   crc16 LittleEndian [1, 2, 3] 0 (replicate 255 0) = Inl (ValueError ''invalid CRC table'') \<and>
   crc16r LittleEndian [1, 2, 3] 0 (replicate 255 0) = Inl (ValueError ''invalid CRC table'') \<and>
   crc24 LittleEndian [1, 2, 3] 0 (replicate 255 0) = Inl (ValueError ''invalid CRC table'') \<and>
   crc24r LittleEndian [1, 2, 3] 0 (replicate 255 0) = Inl (ValueError ''invalid CRC table'') \<and>
   crc32 LittleEndian [1, 2, 3] 0 (replicate 255 0) = Inl (ValueError ''invalid CRC table'') \<and>
   crc32r LittleEndian [1, 2, 3] 0 (replicate 255 0) = Inl (ValueError ''invalid CRC table'') \<and>
   crc64 LittleEndian [1, 2, 3] 0 (replicate 255 0) = Inl (ValueError ''invalid CRC table'') \<and>
   crc64r LittleEndian [1, 2, 3] 0 (replicate 255 0) = Inl (ValueError ''invalid CRC table'')"
  using C4_invalid_table [where t = "replicate 255 0" and e = LittleEndian
      and data = "[1, 2, 3]" and ?c8.0 = 0 and ?c16.0 = 0 and ?c32.0 = 0 and ?c64.0 = 0]
  by simp

text \<open>
  C5, as stated, fails in reflected order: \<open>_crc24r\<close> returns the loop register as it is,
  and a table of the valid length can hold entries above \<open>0xFFFFFF\<close>.
\<close>

theorem C5_crc24_range_counterexample:
  "length (concat (replicate 256 [1, 1, 1, 1 :: UINT8])) = 256 * 4 \<and>
   crc24r LittleEndian [5] 0 (concat (replicate 256 [1, 1, 1, 1])) = Inr 0x01010101 \<and>
   \<not> (0x01010101 :: UINT32) \<le> 0xFFFFFF \<and>
   \<not> (case crc24r LittleEndian [5] 0 (concat (replicate 256 [1, 1, 1, 1]))
        of Inl _ \<Rightarrow> False | Inr v \<Rightarrow> v \<le> 0xFFFFFF)"
  by (simp add: crc24r_fold length_constant_table reflected_step_def bottomByte_def
      table_entry_constant unat_byte_less host_word_def)

text \<open>
  C5, amended. For every initial register, every table of the valid length and every
  input, the 24-bit normal-order update returns a value in \<open>[0, 0xFFFFFF]\<close>; the 24-bit
  reflected-order update does so for every table of the valid length whose entries are
  all at most \<open>0xFFFFFF\<close>.
\<close>

theorem C5_crc24_range:
  "length t = 256 * 4 \<longrightarrow>
     (case crc24 e data c t of Inl _ \<Rightarrow> False | Inr v \<Rightarrow> v \<le> 0xFFFFFF) \<and>
     ((\<forall>i. table_entry 4 e t i \<le> (0xFFFFFF :: UINT32)) \<longrightarrow>
        (case crc24r e data c t of Inl _ \<Rightarrow> False | Inr v \<Rightarrow> v \<le> 0xFFFFFF))"
proof (intro impI conjI)
  assume len: "length t = 256 * 4"
  then show "case crc24 e data c t of Inl _ \<Rightarrow> False | Inr v \<Rightarrow> v \<le> 0xFFFFFF"
    by (simp add: crc24_fold and_M24_le)
  assume "\<forall>i. table_entry 4 e t i \<le> (0xFFFFFF :: UINT32)"
  then have "foldl (reflected_step (table_entry 4 e t)) (c AND 0xFFFFFF) data \<le> 0xFFFFFF"
    by (intro reflected24_fold_bound and_M24_le) simp
  with len show "case crc24r e data c t of Inl _ \<Rightarrow> False | Inr v \<Rightarrow> v \<le> 0xFFFFFF"
    by (simp add: crc24r_fold)
qed

theorem C5_crc24_range_witness:
  "(case crc24 BigEndian [1, 2] 0xAB000000 (concat (replicate 256 [0, 0x56, 0x34, 0x12]))
      of Inl _ \<Rightarrow> False | Inr v \<Rightarrow> v \<le> 0xFFFFFF) \<and>
   (case crc24r BigEndian [1, 2] 0xAB000000 (concat (replicate 256 [0, 0x56, 0x34, 0x12]))
      of Inl _ \<Rightarrow> False | Inr v \<Rightarrow> v \<le> 0xFFFFFF)"
  using C5_crc24_range [where e = BigEndian and data = "[1, 2]" and c = "0xAB000000"
      and t = "concat (replicate 256 [0, 0x56, 0x34, 0x12])"]
  by (simp add: length_constant_table table_entry_constant unat_byte_less host_word_def)

text \<open>
  C6. For width 8 the normal and the reflected update function return the same result
  for every initial register, every table and every input.
\<close>

theorem C6_crc8_orders_agree: "crc8r data crc table = crc8 data crc table"
proof -
  have "crc8r_body table = crc8_body table"
    by (rule ext, rule ext) (simp add: crc8r_body_def crc8_body_def crc8r_index_def crc8_index_def)
  then show ?thesis by (simp add: crc8r_def crc8_def)
qed

theorem C6_crc8_orders_agree_witness:
  "crc8r [1, 2, 3] 0x5A (replicate 256 7) = Inr 7 \<and> crc8 [1, 2, 3] 0x5A (replicate 256 7) = Inr 7"
  using C6_crc8_orders_agree [of "[1, 2, 3]" "0x5A" "replicate 256 7"]
  by (simp add: crc8_fold byte_step_def unat_byte_less)

text \<open>
  C7, as stated, fails for the 24-bit variants: both mask the register to 24 bits, so an
  initial register with a bit above bit 23 does not come back unchanged.
\<close>

theorem C7_empty_input_counterexample:
  "length (concat (replicate 256 [0, 0, 0, 0 :: UINT8])) = 256 * 4 \<and>
   crc24 LittleEndian [] 0x01000000 (concat (replicate 256 [0, 0, 0, 0])) = Inr 0 \<and>
   crc24r LittleEndian [] 0x01000000 (concat (replicate 256 [0, 0, 0, 0])) = Inr 0 \<and>
   crc24 LittleEndian [] 0x01000000 (concat (replicate 256 [0, 0, 0, 0])) \<noteq> Inr 0x01000000 \<and>
   crc24r LittleEndian [] 0x01000000 (concat (replicate 256 [0, 0, 0, 0])) \<noteq> Inr 0x01000000"
  by (simp add: crc24_fold crc24r_fold length_constant_table)

text \<open>
  C7, amended. For every table of the valid length and every initial register \<open>r\<close>, an
  update with a zero-length input returns \<open>r\<close> unchanged in the variants of width 8,
  16, 32 and 64; the two 24-bit variants return \<open>r AND 0xFFFFFF\<close>, which is \<open>r\<close>
  exactly when \<open>r\<close> is at most \<open>0xFFFFFF\<close>.
\<close>

theorem C7_empty_input:
  "(length t8 = 256 \<longrightarrow> crc8 [] c8 t8 = Inr c8 \<and> crc8r [] c8 t8 = Inr c8) \<and>
   (length t16 = 256 * 2 \<longrightarrow> crc16 e [] c16 t16 = Inr c16 \<and> crc16r e [] c16 t16 = Inr c16) \<and>
   (length t32 = 256 * 4 \<longrightarrow>
      crc24 e [] c32 t32 = Inr (c32 AND 0xFFFFFF) \<and>
      crc24r e [] c32 t32 = Inr (c32 AND 0xFFFFFF) \<and>
      (c32 AND 0xFFFFFF = c32 \<longleftrightarrow> c32 \<le> 0xFFFFFF) \<and>
      crc32 e [] c32 t32 = Inr c32 \<and> crc32r e [] c32 t32 = Inr c32) \<and>
   (length t64 = 256 * 8 \<longrightarrow> crc64 e [] c64 t64 = Inr c64 \<and> crc64r e [] c64 t64 = Inr c64)"
  by (simp add: crc8_fold crc8r_fold crc16_fold crc16r_fold crc24_fold crc24r_fold
      crc32_fold crc32r_fold crc64_fold crc64r_fold le_M24)

theorem C7_empty_input_witness:
  "crc8 [] 0x5A (replicate 256 7) = Inr 0x5A \<and>
   crc8r [] 0x5A (replicate 256 7) = Inr 0x5A \<and>
   crc16 BigEndian [] 0xBEEF (concat (replicate 256 [0x21, 0x10])) = Inr 0xBEEF \<and>
   crc16r BigEndian [] 0xBEEF (concat (replicate 256 [0x21, 0x10])) = Inr 0xBEEF \<and>
   crc24 BigEndian [] 0xABCDEF (concat (replicate 256 [0, 0x56, 0x34, 0x12])) = Inr 0xABCDEF \<and>
   crc24r BigEndian [] 0xABCDEF (concat (replicate 256 [0, 0x56, 0x34, 0x12])) = Inr 0xABCDEF \<and>
   crc32 BigEndian [] 0xABCDEF (concat (replicate 256 [0, 0x56, 0x34, 0x12])) = Inr 0xABCDEF \<and>
   crc32r BigEndian [] 0xABCDEF (concat (replicate 256 [0, 0x56, 0x34, 0x12])) = Inr 0xABCDEF \<and>
   crc64 BigEndian [] 0x0123456789ABCDEF (concat (replicate 256 [8, 7, 6, 5, 4, 3, 2, 1]))
     = Inr 0x0123456789ABCDEF \<and>
   crc64r BigEndian [] 0x0123456789ABCDEF (concat (replicate 256 [8, 7, 6, 5, 4, 3, 2, 1]))
     = Inr 0x0123456789ABCDEF"
  using C7_empty_input [where e = BigEndian
      and ?t8.0 = "replicate 256 7" and ?c8.0 = "0x5A"
      and ?t16.0 = "concat (replicate 256 [0x21, 0x10])" and ?c16.0 = "0xBEEF"
      and ?t32.0 = "concat (replicate 256 [0, 0x56, 0x34, 0x12])" and ?c32.0 = "0xABCDEF"
      and ?t64.0 = "concat (replicate 256 [8, 7, 6, 5, 4, 3, 2, 1])"
      and ?c64.0 = "0x0123456789ABCDEF"]
  by (simp add: length_constant_table)

text \<open>
  C8. Each of the ten update functions is a total function of register, table and data
  and returns on every finite buffer. With a table of the valid length:
  \<^item> a loop entered with the pointer at offset \<open>p\<close> and \<open>n\<close> bytes to go (all inside the
    buffer) ends with the pointer at \<open>p + n\<close>, having folded exactly the \<open>n\<close> bytes in
    between: one byte per iteration, \<open>n\<close> iterations;
  \<^item> the loop as the update function starts it, at offset 0 with \<open>dataLen = length data\<close>
    (for \<open>_crc24r\<close> on the masked register), returns with the pointer at
    \<open>length data\<close>, and the update function returns the register of that run (for
    \<open>_crc24\<close> masked);
  \<^item> so the update function returns the fold of its step over all \<open>length data\<close> bytes.
  With a table of another length the function returns before the loop (C4).
\<close>

theorem C8_loop_terminates:
  "(length t8 = 256 \<longrightarrow>
      (p + n \<le> length data \<longrightarrow>
         while_dataLen (crc8_body t8) data p n c8
           = Some (foldl (byte_step t8) c8 (take n (drop p data)), p + n) \<and>
         while_dataLen (crc8r_body t8) data p n c8
           = Some (foldl (byte_step t8) c8 (take n (drop p data)), p + n)) \<and>
      (case while_dataLen (crc8_body t8) data 0 (length data) c8 of
         None \<Rightarrow> False
       | Some (r, q) \<Rightarrow> q = length data \<and> crc8 data c8 t8 = Inr r) \<and>
      crc8 data c8 t8 = Inr (foldl (byte_step t8) c8 data) \<and>
      (case while_dataLen (crc8r_body t8) data 0 (length data) c8 of
         None \<Rightarrow> False
       | Some (r, q) \<Rightarrow> q = length data \<and> crc8r data c8 t8 = Inr r) \<and>
      crc8r data c8 t8 = Inr (foldl (byte_step t8) c8 data)) \<and>
   (length t16 = 256 * 2 \<longrightarrow>
      (p + n \<le> length data \<longrightarrow>
         while_dataLen (crc16_body e t16) data p n c16
           = Some (foldl (normal_step 16 (table_entry 2 e t16)) c16 (take n (drop p data)), p + n) \<and>
         while_dataLen (crc16r_body e t16) data p n c16
           = Some (foldl (reflected_step (table_entry 2 e t16)) c16 (take n (drop p data)), p + n)) \<and>
      (case while_dataLen (crc16_body e t16) data 0 (length data) c16 of
         None \<Rightarrow> False
       | Some (r, q) \<Rightarrow> q = length data \<and> crc16 e data c16 t16 = Inr r) \<and>
      crc16 e data c16 t16 = Inr (foldl (normal_step 16 (table_entry 2 e t16)) c16 data) \<and>
      (case while_dataLen (crc16r_body e t16) data 0 (length data) c16 of
         None \<Rightarrow> False
       | Some (r, q) \<Rightarrow> q = length data \<and> crc16r e data c16 t16 = Inr r) \<and>
      crc16r e data c16 t16 = Inr (foldl (reflected_step (table_entry 2 e t16)) c16 data)) \<and>
   (length t32 = 256 * 4 \<longrightarrow>
      (p + n \<le> length data \<longrightarrow>
         while_dataLen (crc24_body e t32) data p n c32
           = Some (foldl (normal_step 24 (table_entry 4 e t32)) c32 (take n (drop p data)), p + n) \<and>
         while_dataLen (crc24r_body e t32) data p n c32
           = Some (foldl (reflected_step (table_entry 4 e t32)) c32 (take n (drop p data)), p + n) \<and>
         while_dataLen (crc32_body e t32) data p n c32
           = Some (foldl (normal_step 32 (table_entry 4 e t32)) c32 (take n (drop p data)), p + n) \<and>
         while_dataLen (crc32r_body e t32) data p n c32
           = Some (foldl (reflected_step (table_entry 4 e t32)) c32 (take n (drop p data)), p + n)) \<and>
      (case while_dataLen (crc24_body e t32) data 0 (length data) c32 of
         None \<Rightarrow> False
       | Some (r, q) \<Rightarrow> q = length data \<and> crc24 e data c32 t32 = Inr (r AND 0xFFFFFF)) \<and>
      crc24 e data c32 t32 = Inr (foldl (normal_step 24 (table_entry 4 e t32)) c32 data AND 0xFFFFFF) \<and>
      (case while_dataLen (crc24r_body e t32) data 0 (length data) (c32 AND 0xFFFFFF) of
         None \<Rightarrow> False
       | Some (r, q) \<Rightarrow> q = length data \<and> crc24r e data c32 t32 = Inr r) \<and>
      crc24r e data c32 t32 = Inr (foldl (reflected_step (table_entry 4 e t32)) (c32 AND 0xFFFFFF) data) \<and>
      (case while_dataLen (crc32_body e t32) data 0 (length data) c32 of
         None \<Rightarrow> False
       | Some (r, q) \<Rightarrow> q = length data \<and> crc32 e data c32 t32 = Inr r) \<and>
      crc32 e data c32 t32 = Inr (foldl (normal_step 32 (table_entry 4 e t32)) c32 data) \<and>
      (case while_dataLen (crc32r_body e t32) data 0 (length data) c32 of
         None \<Rightarrow> False
       | Some (r, q) \<Rightarrow> q = length data \<and> crc32r e data c32 t32 = Inr r) \<and>
      crc32r e data c32 t32 = Inr (foldl (reflected_step (table_entry 4 e t32)) c32 data)) \<and>
   (length t64 = 256 * 8 \<longrightarrow>
      (p + n \<le> length data \<longrightarrow>
         while_dataLen (crc64_body e t64) data p n c64
           = Some (foldl (normal_step 64 (table_entry 8 e t64)) c64 (take n (drop p data)), p + n) \<and>
         while_dataLen (crc64r_body e t64) data p n c64
           = Some (foldl (reflected_step (table_entry 8 e t64)) c64 (take n (drop p data)), p + n)) \<and>
      (case while_dataLen (crc64_body e t64) data 0 (length data) c64 of
         None \<Rightarrow> False
       | Some (r, q) \<Rightarrow> q = length data \<and> crc64 e data c64 t64 = Inr r) \<and>
      crc64 e data c64 t64 = Inr (foldl (normal_step 64 (table_entry 8 e t64)) c64 data) \<and>
      (case while_dataLen (crc64r_body e t64) data 0 (length data) c64 of
         None \<Rightarrow> False
       | Some (r, q) \<Rightarrow> q = length data \<and> crc64r e data c64 t64 = Inr r) \<and>
      crc64r e data c64 t64 = Inr (foldl (reflected_step (table_entry 8 e t64)) c64 data))"
  by (simp add: while_fold
      crc8_body_valid crc8r_body_valid crc16_body_valid crc16r_body_valid crc24_body_valid
      crc24r_body_valid crc32_body_valid crc32r_body_valid crc64_body_valid crc64r_body_valid
      crc8_loop_whole crc8r_loop_whole crc16_loop_whole crc16r_loop_whole crc24_loop_whole
      crc24r_loop_whole crc32_loop_whole crc32r_loop_whole crc64_loop_whole crc64r_loop_whole
      crc8_fold crc8r_fold crc16_fold crc16r_fold crc24_fold
      crc24r_fold crc32_fold crc32r_fold crc64_fold crc64r_fold)

theorem C8_loop_terminates_witness:
  "while_dataLen (crc8_body (replicate 256 7)) [1, 2, 3] 0 3 0x5A
     = Some (7, 3) \<and>
   while_dataLen (crc8r_body (replicate 256 7)) [1, 2, 3] 0 3 0x5A
     = Some (7, 3) \<and>
   while_dataLen (crc16_body LittleEndian (concat (replicate 256 [0x21, 0x10])))
       [1, 2, 3] 0 3 0
     = Some (0x3121, 3) \<and>
   while_dataLen (crc16r_body LittleEndian (concat (replicate 256 [0x21, 0x10])))
       [1, 2, 3] 0 3 0
     = Some (0x1031, 3) \<and>
   while_dataLen (crc24_body LittleEndian (concat (replicate 256 [0x56, 0x34, 0x12, 0x9A])))
       [1, 2, 3] 0 3 0xAB000000
     = Some (0xBC706256, 3) \<and>
   while_dataLen (crc24r_body LittleEndian (concat (replicate 256 [0x56, 0x34, 0x12, 0x9A])))
       [1, 2, 3] 0 3 0xAB000000
     = Some (0x9A88BCDB, 3) \<and>
   while_dataLen (crc32_body LittleEndian (concat (replicate 256 [0x56, 0x34, 0x12, 0x9A])))
       [1, 2, 3] 0 3 0xAB000000
     = Some (0xBC706256, 3) \<and>
   while_dataLen (crc32r_body LittleEndian (concat (replicate 256 [0x56, 0x34, 0x12, 0x9A])))
       [1, 2, 3] 0 3 0xAB000000
     = Some (0x9A88BCDB, 3) \<and>
   while_dataLen (crc64_body LittleEndian (concat (replicate 256 [8, 7, 6, 5, 4, 3, 2, 1])))
       [1, 2, 3] 0 3 0
     = Some (0x5020704090F08, 3) \<and>
   while_dataLen (crc64r_body LittleEndian (concat (replicate 256 [8, 7, 6, 5, 4, 3, 2, 1])))
       [1, 2, 3] 0 3 0
     = Some (0x103000502070409, 3) \<and>
   crc8 [1, 2, 3] 0x5A (replicate 256 7) = Inr 7 \<and>
   crc8r [1, 2, 3] 0x5A (replicate 256 7) = Inr 7 \<and>
   crc16 LittleEndian [1, 2, 3] 0 (concat (replicate 256 [0x21, 0x10])) = Inr 0x3121 \<and>
   crc16r LittleEndian [1, 2, 3] 0 (concat (replicate 256 [0x21, 0x10])) = Inr 0x1031 \<and>
   crc24 LittleEndian [1, 2, 3] 0xAB000000 (concat (replicate 256 [0x56, 0x34, 0x12, 0x9A]))
     = Inr 0x706256 \<and>
   crc24r LittleEndian [1, 2, 3] 0xAB000000 (concat (replicate 256 [0x56, 0x34, 0x12, 0x9A]))
     = Inr 0x9A88BC70 \<and>
   crc32 LittleEndian [1, 2, 3] 0xAB000000 (concat (replicate 256 [0x56, 0x34, 0x12, 0x9A]))
     = Inr 0xBC706256 \<and>
   crc32r LittleEndian [1, 2, 3] 0xAB000000 (concat (replicate 256 [0x56, 0x34, 0x12, 0x9A]))
     = Inr 0x9A88BCDB \<and>
   crc64 LittleEndian [1, 2, 3] 0 (concat (replicate 256 [8, 7, 6, 5, 4, 3, 2, 1]))
     = Inr 0x5020704090F08 \<and>
   crc64r LittleEndian [1, 2, 3] 0 (concat (replicate 256 [8, 7, 6, 5, 4, 3, 2, 1]))
     = Inr 0x103000502070409"
  using C8_loop_terminates [where e = LittleEndian and data = "[1, 2, 3]" and p = 0 and n = 3
      and ?t8.0 = "replicate 256 7" and ?c8.0 = "0x5A"
      and ?t16.0 = "concat (replicate 256 [0x21, 0x10])" and ?c16.0 = 0
      and ?t32.0 = "concat (replicate 256 [0x56, 0x34, 0x12, 0x9A])" and ?c32.0 = "0xAB000000"
      and ?t64.0 = "concat (replicate 256 [8, 7, 6, 5, 4, 3, 2, 1])" and ?c64.0 = 0]
  by (simp add: length_constant_table byte_step_def normal_step_def reflected_step_def
      topByte_def bottomByte_def table_entry_constant unat_byte_less host_word_def
      del: while_dataLen.simps)

text \<open>
  C9. In every variant the index of each table access is the exclusive or of two bytes
  promoted to \<open>int\<close>, hence in \<open>[0, 255]\<close>; with a table that passed the length check
  the access at that index lies inside the table, so no iteration and no call ends in
  an out-of-bounds read.
\<close>

theorem C9_table_index_in_range:
  "(0 \<le> sint (crc8_index d c8) \<and> sint (crc8_index d c8) \<le> 255) \<and>
   (0 \<le> sint (crc8r_index d c8) \<and> sint (crc8r_index d c8) \<le> 255) \<and>
   (0 \<le> sint (crc16_index d c16) \<and> sint (crc16_index d c16) \<le> 255) \<and>
   (0 \<le> sint (crc16r_index d c16) \<and> sint (crc16r_index d c16) \<le> 255) \<and>
   (0 \<le> sint (crc24_index d c32) \<and> sint (crc24_index d c32) \<le> 255) \<and>
   (0 \<le> sint (crc24r_index d c32) \<and> sint (crc24r_index d c32) \<le> 255) \<and>
   (0 \<le> sint (crc32_index d c32) \<and> sint (crc32_index d c32) \<le> 255) \<and>
   (0 \<le> sint (crc32r_index d c32) \<and> sint (crc32r_index d c32) \<le> 255) \<and>
   (0 \<le> sint (crc64_index d c64) \<and> sint (crc64_index d c64) \<le> 255) \<and>
   (0 \<le> sint (crc64r_index d c64) \<and> sint (crc64r_index d c64) \<le> 255) \<and>
   (length t8 = 256 \<longrightarrow>
      crc8_body t8 d c8 \<noteq> None \<and>
      crc8 data c8 t8 \<noteq> Inl OutOfBounds \<and>
      crc8r_body t8 d c8 \<noteq> None \<and>
      crc8r data c8 t8 \<noteq> Inl OutOfBounds) \<and>
   (length t16 = 256 * 2 \<longrightarrow>
      crc16_body e t16 d c16 \<noteq> None \<and>
      crc16 e data c16 t16 \<noteq> Inl OutOfBounds \<and>
      crc16r_body e t16 d c16 \<noteq> None \<and>
      crc16r e data c16 t16 \<noteq> Inl OutOfBounds) \<and>
   (length t32 = 256 * 4 \<longrightarrow>
      crc24_body e t32 d c32 \<noteq> None \<and>
      crc24 e data c32 t32 \<noteq> Inl OutOfBounds \<and>
      crc24r_body e t32 d c32 \<noteq> None \<and>
      crc24r e data c32 t32 \<noteq> Inl OutOfBounds \<and>
      crc32_body e t32 d c32 \<noteq> None \<and>
      crc32 e data c32 t32 \<noteq> Inl OutOfBounds \<and>
      crc32r_body e t32 d c32 \<noteq> None \<and>
      crc32r e data c32 t32 \<noteq> Inl OutOfBounds) \<and>
   (length t64 = 256 * 8 \<longrightarrow>
      crc64_body e t64 d c64 \<noteq> None \<and>
      crc64 e data c64 t64 \<noteq> Inl OutOfBounds \<and>
      crc64r_body e t64 d c64 \<noteq> None \<and>
      crc64r e data c64 t64 \<noteq> Inl OutOfBounds)"
  by (simp add: index_range
      crc8_index_def crc8r_index_def crc16_index_def crc16r_index_def crc24_index_def
      crc24r_index_def crc32_index_def crc32r_index_def crc64_index_def crc64r_index_def
      crc8_body_valid crc8r_body_valid crc16_body_valid crc16r_body_valid crc24_body_valid
      crc24r_body_valid crc32_body_valid crc32r_body_valid crc64_body_valid crc64r_body_valid
      crc8_fold crc8r_fold crc16_fold crc16r_fold crc24_fold
      crc24r_fold crc32_fold crc32r_fold crc64_fold crc64r_fold)

theorem C9_table_index_in_range_witness:
  "sint (crc8_index 0xC3 0x5A) = 153 \<and>
   sint (crc8r_index 0xC3 0x5A) = 153 \<and>
   sint (crc16_index 0xC3 0xBEEF) = 125 \<and>
   sint (crc16r_index 0xC3 0xBEEF) = 44 \<and>
   sint (crc24_index 0xC3 0xAB54CDEF) = 151 \<and>
   sint (crc24r_index 0xC3 0xAB54CDEF) = 44 \<and>
   sint (crc32_index 0xC3 0xAB54CDEF) = 104 \<and>
   sint (crc32r_index 0xC3 0xAB54CDEF) = 44 \<and>
   sint (crc64_index 0xC3 0xFE23456789ABCD01) = 61 \<and>
   sint (crc64r_index 0xC3 0xFE23456789ABCD01) = 194 \<and>
   crc8_body (replicate 256 7) 0xC3 0x5A \<noteq> None \<and>
   crc8 [1, 2, 3] 0x5A (replicate 256 7) \<noteq> Inl OutOfBounds \<and>
   crc8r_body (replicate 256 7) 0xC3 0x5A \<noteq> None \<and>
   crc8r [1, 2, 3] 0x5A (replicate 256 7) \<noteq> Inl OutOfBounds \<and>
   crc16_body LittleEndian (concat (replicate 256 [0x21, 0x10])) 0xC3 0xBEEF \<noteq> None \<and>
   crc16 LittleEndian [1, 2, 3] 0xBEEF (concat (replicate 256 [0x21, 0x10])) \<noteq> Inl OutOfBounds \<and>
   crc16r_body LittleEndian (concat (replicate 256 [0x21, 0x10])) 0xC3 0xBEEF \<noteq> None \<and>
   crc16r LittleEndian [1, 2, 3] 0xBEEF (concat (replicate 256 [0x21, 0x10])) \<noteq> Inl OutOfBounds \<and>
   crc24_body LittleEndian (concat (replicate 256 [0x56, 0x34, 0x12, 0x9A])) 0xC3 0xAB54CDEF \<noteq> None \<and>
   crc24 LittleEndian [1, 2, 3] 0xAB54CDEF (concat (replicate 256 [0x56, 0x34, 0x12, 0x9A])) \<noteq> Inl OutOfBounds \<and>
   crc24r_body LittleEndian (concat (replicate 256 [0x56, 0x34, 0x12, 0x9A])) 0xC3 0xAB54CDEF \<noteq> None \<and>
   crc24r LittleEndian [1, 2, 3] 0xAB54CDEF (concat (replicate 256 [0x56, 0x34, 0x12, 0x9A])) \<noteq> Inl OutOfBounds \<and>
   crc32_body LittleEndian (concat (replicate 256 [0x56, 0x34, 0x12, 0x9A])) 0xC3 0xAB54CDEF \<noteq> None \<and>
   crc32 LittleEndian [1, 2, 3] 0xAB54CDEF (concat (replicate 256 [0x56, 0x34, 0x12, 0x9A])) \<noteq> Inl OutOfBounds \<and>
   crc32r_body LittleEndian (concat (replicate 256 [0x56, 0x34, 0x12, 0x9A])) 0xC3 0xAB54CDEF \<noteq> None \<and>
   crc32r LittleEndian [1, 2, 3] 0xAB54CDEF (concat (replicate 256 [0x56, 0x34, 0x12, 0x9A])) \<noteq> Inl OutOfBounds \<and>
   crc64_body LittleEndian (concat (replicate 256 [8, 7, 6, 5, 4, 3, 2, 1])) 0xC3 0xFE23456789ABCD01 \<noteq> None \<and>
   crc64 LittleEndian [1, 2, 3] 0xFE23456789ABCD01 (concat (replicate 256 [8, 7, 6, 5, 4, 3, 2, 1])) \<noteq> Inl OutOfBounds \<and>
   crc64r_body LittleEndian (concat (replicate 256 [8, 7, 6, 5, 4, 3, 2, 1])) 0xC3 0xFE23456789ABCD01 \<noteq> None \<and>
   crc64r LittleEndian [1, 2, 3] 0xFE23456789ABCD01 (concat (replicate 256 [8, 7, 6, 5, 4, 3, 2, 1])) \<noteq> Inl OutOfBounds"
  using C9_table_index_in_range [where e = LittleEndian and data = "[1, 2, 3]" and d = "0xC3"
      and ?t8.0 = "replicate 256 7" and ?c8.0 = "0x5A"
      and ?t16.0 = "concat (replicate 256 [0x21, 0x10])" and ?c16.0 = "0xBEEF"
      and ?t32.0 = "concat (replicate 256 [0x56, 0x34, 0x12, 0x9A])" and ?c32.0 = "0xAB54CDEF"
      and ?t64.0 = "concat (replicate 256 [8, 7, 6, 5, 4, 3, 2, 1])"
      and ?c64.0 = "0xFE23456789ABCD01"]
  by (simp add: length_constant_table
      crc8_index_def crc8r_index_def crc16_index_def crc16r_index_def crc24_index_def
      crc24r_index_def crc32_index_def crc32r_index_def crc64_index_def crc64r_index_def
      BYTE0_def BYTE1_def BYTE2_def BYTE3_def BYTE7_def)

text \<open>
  C10. The value the 24-bit normal-order update returns depends only on the low 24 bits
  of the initial register: two initial registers that agree on bits 0 to 23 give the same
  result with the same table and the same input.
\<close>

theorem C10_crc24_ignores_high_byte:
  "c1 AND 0xFFFFFF = c2 AND 0xFFFFFF \<Longrightarrow> crc24 e data c1 t = crc24 e data c2 t"
proof (cases "length t = 256 * 4")
  case True
  assume "c1 AND 0xFFFFFF = c2 AND 0xFFFFFF"
  then have "foldl (normal_step 24 (table_entry 4 e t)) c1 data AND 0xFFFFFF
      = foldl (normal_step 24 (table_entry 4 e t)) c2 data AND 0xFFFFFF"
    by (rule normal24_fold_agree)
  with True show ?thesis by (simp add: crc24_fold)
next
  case False
  then show ?thesis by (simp add: crc24_def)
qed

theorem C10_crc24_ignores_high_byte_witness:
  "(0x01123456 :: UINT32) AND 0xFFFFFF = 0xFE123456 AND 0xFFFFFF \<and>
   crc24 LittleEndian [1, 2] 0x01123456 (concat (replicate 256 [0x56, 0x34, 0x12, 0x9A]))
     = crc24 LittleEndian [1, 2] 0xFE123456 (concat (replicate 256 [0x56, 0x34, 0x12, 0x9A]))"
  using C10_crc24_ignores_high_byte [of "0x01123456" "0xFE123456" LittleEndian "[1, 2]"
      "concat (replicate 256 [0x56, 0x34, 0x12, 0x9A])"]
  by simp

end
